theory Spec2Isabelle
  imports Complex_Main
begin

section \<open>The market simulator of simulate\_strategies.py\<close>

text \<open>
  The simulator keeps one number per simulation lane in numpy arrays of dtype float32.
  Here a lane value is a \<^typ>\<open>real\<close> and an array is a list of lane values, so every
  operation is the exact real operation and the rounding of float32 is not part of the
  model. Arrays of one market all have \<open>nbr_simulations\<close> lanes (the constructor creates
  them so and every update is in place or lane by lane); the theorems state that shape
  as a hypothesis, since numpy raises on arrays of different shapes where \<open>map2\<close> cuts
  the longer list. A quotient by a lane whose \<open>market_value\<close> is zero is \<open>inf\<close> or
  \<open>nan\<close> in numpy and \<open>0\<close> in HOL: the theorems that read a quotient assume the lane's
  \<open>market_value\<close> is not zero.
\<close>

type_synonym vec = "real list"

datatype error = AssertionError | ZeroDivisionError | AttributeError

definition TICKS_PER_YEAR :: int where
  "TICKS_PER_YEAR = 10000"

subsection \<open>SimpleCashInjection\<close>

record SimpleCashInjection =
  cash_per_year :: real
  payouts_per_year :: int
  payout_every_n_ticks :: int
  payout :: real

text \<open>
  The body of \<open>SimpleCashInjection.__init__\<close>, with the two literals it assigns
  (\<open>10000.0\<close> and \<open>500\<close>) as parameters. \<open>TICKS_PER_YEAR % 0\<close> raises
  ZeroDivisionError before the assertion is evaluated; \<open>%\<close> and \<open>//\<close> on Python
  integers are the flooring \<open>mod\<close> and \<open>div\<close> of \<^typ>\<open>int\<close>.
\<close>

definition SimpleCashInjection_with :: "real \<Rightarrow> int \<Rightarrow> error + SimpleCashInjection" where
  "SimpleCashInjection_with c p =
     (if p = 0 then Inl ZeroDivisionError
      else if TICKS_PER_YEAR mod p \<noteq> 0 then Inl AssertionError
      else Inr \<lparr>cash_per_year = c, payouts_per_year = p,
                payout_every_n_ticks = TICKS_PER_YEAR div p,
                payout = c / of_int p\<rparr>)"

text \<open>The constructor as the source has it.\<close>

definition SimpleCashInjection_init :: "error + SimpleCashInjection" where
  "SimpleCashInjection_init = SimpleCashInjection_with 10000 500"

text \<open>\<open>SimpleCashInjection.__call__\<close>; \<open>tick % 0\<close> raises.\<close>

definition SimpleCashInjection_call :: "SimpleCashInjection \<Rightarrow> int \<Rightarrow> error + real" where
  "SimpleCashInjection_call s tick =
     (if payout_every_n_ticks s = 0 then Inl ZeroDivisionError
      else if tick mod payout_every_n_ticks s = 0 then Inr (payout s)
      else Inr 0)"

subsection \<open>Agents\<close>

text \<open>
  An agent object: its class, the two arrays \<open>Market.__init__\<close> gives it, and the
  attribute \<open>limit\<close> of a LimitOrderAgent, which does not exist until \<open>order\<close> assigns
  it (\<open>None\<close>; reading it then raises AttributeError). The two other attributes of a
  LimitOrderAgent are assigned once, in its constructor, and never again.
\<close>

datatype agent_class = KeepCashAgent | AllInAgent | LimitOrderAgent

record agent =
  kind :: agent_class
  cash :: vec
  depot :: vec
  limit :: "vec option"

definition limit_wait_ticks :: int where
  "limit_wait_ticks = 10"

definition limit_ratio_value :: real where
  "limit_ratio_value = 0.9999"

definition new_agent :: "agent_class \<Rightarrow> agent" where
  "new_agent k = \<lparr>kind = k, cash = [], depot = [], limit = None\<rparr>"

text \<open>
  An \<open>order\<close> method returns the order and leaves the agent object as it is or updated:
  the result is the pair of both.
\<close>

type_synonym order_method = "agent \<Rightarrow> vec \<Rightarrow> int \<Rightarrow> error + (vec \<times> agent)"

definition KeepCashAgent_order :: order_method where
  "KeepCashAgent_order a market_value tick = Inr (map (\<lambda>_. 0) (cash a), a)"

definition AllInAgent_order :: order_method where
  "AllInAgent_order a market_value tick = Inr (map2 (/) (cash a) market_value, a)"

text \<open>
  \<open>market_value <= self.limit\<close> is an array of booleans; multiplying by it keeps a lane's
  order where it is true and puts 0 where it is false.
\<close>

definition LimitOrderAgent_order :: order_method where
  "LimitOrderAgent_order a market_value tick =
     (let a1 = (if tick mod limit_wait_ticks = 0
                then a\<lparr>limit := Some (map (\<lambda>v. v * limit_ratio_value) market_value)\<rparr>
                else a);
          order = map2 (/) (cash a1) market_value
      in case limit a1 of
           None \<Rightarrow> Inl AttributeError
         | Some l \<Rightarrow>
             Inr (map2 (*) order (map2 (\<lambda>v lim. if v \<le> lim then 1 else 0) market_value l), a1))"

text \<open>The method the class of the agent selects.\<close>

definition order :: order_method where
  "order a market_value tick =
     (case kind a of
        KeepCashAgent \<Rightarrow> KeepCashAgent_order a market_value tick
      | AllInAgent \<Rightarrow> AllInAgent_order a market_value tick
      | LimitOrderAgent \<Rightarrow> LimitOrderAgent_order a market_value tick)"

subsection \<open>Market\<close>

text \<open>
  The market object. \<open>cash_injection\<close> is any callable from the tick index to a Python
  float; \<open>market_sim\<close> is called for its effect on the array \<open>market_value\<close> and is
  modelled by the array it leaves there. A price model that draws random numbers, as
  RealSimpleMarketSim does, is a function of the tick index as well, each tick index
  occurring once in a run.
\<close>

record market =
  agents :: "agent list"
  cash_injection :: "int \<Rightarrow> error + real"
  market_sim :: "vec \<Rightarrow> int \<Rightarrow> vec"
  tick_count :: int
  market_value :: vec

definition Market_init ::
  "agent list \<Rightarrow> (int \<Rightarrow> error + real) \<Rightarrow> (vec \<Rightarrow> int \<Rightarrow> vec) \<Rightarrow> nat \<Rightarrow> market" where
  "Market_init ags schedule sim nbr_simulations =
     \<lparr>agents = map (\<lambda>a. a\<lparr>cash := replicate nbr_simulations 0,
                            depot := replicate nbr_simulations 0\<rparr>) ags,
      cash_injection = schedule,
      market_sim = sim,
      tick_count = 0,
      market_value = replicate nbr_simulations 1\<rparr>"

text \<open>
  \<open>Market.trade\<close>, for an agent whose \<open>order\<close> method is \<open>ord\<close> (Python selects the
  method by the agent's class; \<^const>\<open>order\<close> is the selection among the three classes of
  the source).
\<close>

definition trade :: "order_method \<Rightarrow> vec \<Rightarrow> int \<Rightarrow> agent \<Rightarrow> error + agent" where
  "trade ord mv tick a =
     (case ord a mv tick of
        Inl e \<Rightarrow> Inl e
      | Inr (order0, a1) \<Rightarrow>
          (let order_value0 = map2 (*) mv order0;
               order_value = map2 min order_value0 (cash a1);
               order1 = map2 (/) order_value mv
           in Inr (a1\<lparr>cash := map2 (-) (cash a1) order_value,
                       depot := map2 (+) (depot a1) order1\<rparr>)))"

text \<open>The loop of \<open>Market.tick\<close> over the agents: injection, then trade, agent by agent.\<close>

fun tick_agents :: "order_method \<Rightarrow> real \<Rightarrow> vec \<Rightarrow> int \<Rightarrow> agent list \<Rightarrow> error + agent list" where
  "tick_agents ord injection mv t [] = Inr []"
| "tick_agents ord injection mv t (a # as) =
     (case trade ord mv t (a\<lparr>cash := map (\<lambda>c. c + injection) (cash a)\<rparr>) of
        Inl e \<Rightarrow> Inl e
      | Inr a' \<Rightarrow>
          (case tick_agents ord injection mv t as of
             Inl e \<Rightarrow> Inl e
           | Inr as' \<Rightarrow> Inr (a' # as')))"

definition tick :: "order_method \<Rightarrow> market \<Rightarrow> error + market" where
  "tick ord m =
     (case cash_injection m (tick_count m) of
        Inl e \<Rightarrow> Inl e
      | Inr injection \<Rightarrow>
          (case tick_agents ord injection (market_value m) (tick_count m) (agents m) of
             Inl e \<Rightarrow> Inl e
           | Inr as' \<Rightarrow>
               Inr (m\<lparr>agents := as',
                      market_value := market_sim m (market_value m) (tick_count m),
                      tick_count := tick_count m + 1\<rparr>)))"

text \<open>The driver's loop: \<open>n\<close> calls of \<open>tick\<close>, stopping at the first that raises.\<close>

fun run :: "order_method \<Rightarrow> nat \<Rightarrow> market \<Rightarrow> error + market" where
  "run ord 0 m = Inr m"
| "run ord (Suc n) m =
     (case tick ord m of
        Inl e \<Rightarrow> Inl e
      | Inr m' \<Rightarrow> run ord n m')"

subsection \<open>The tick as the specification words it\<close>

text \<open>
  The specification describes \<open>tick\<close> in four phases: the injection is added to the cash
  of every agent; then every agent trades, in the order of the list; then the price
  model advances \<open>market_value\<close>; then \<open>tick_count\<close> grows by one. \<open>tick_phased\<close>
  follows these words, where \<^const>\<open>tick\<close> follows the loop of the source.
\<close>

definition inject_all :: "real \<Rightarrow> agent list \<Rightarrow> agent list" where
  "inject_all injection ags = map (\<lambda>a. a\<lparr>cash := map (\<lambda>c. c + injection) (cash a)\<rparr>) ags"

fun trade_all :: "order_method \<Rightarrow> vec \<Rightarrow> int \<Rightarrow> agent list \<Rightarrow> error + agent list" where
  "trade_all ord mv t [] = Inr []"
| "trade_all ord mv t (a # as) =
     (case trade ord mv t a of
        Inl e \<Rightarrow> Inl e
      | Inr a' \<Rightarrow>
          (case trade_all ord mv t as of
             Inl e \<Rightarrow> Inl e
           | Inr as' \<Rightarrow> Inr (a' # as')))"

definition tick_phased :: "order_method \<Rightarrow> market \<Rightarrow> error + market" where
  "tick_phased ord m =
     (case cash_injection m (tick_count m) of
        Inl e \<Rightarrow> Inl e
      | Inr injection \<Rightarrow>
          (let m1 = m\<lparr>agents := inject_all injection (agents m)\<rparr>
           in case trade_all ord (market_value m1) (tick_count m1) (agents m1) of
                Inl e \<Rightarrow> Inl e
              | Inr as' \<Rightarrow>
                  (let m2 = m1\<lparr>agents := as'\<rparr>;
                       m3 = m2\<lparr>market_value := market_sim m2 (market_value m2) (tick_count m2)\<rparr>
                   in Inr (m3\<lparr>tick_count := tick_count m3 + 1\<rparr>))))"

subsection \<open>Inputs and predicates of the theorems\<close>

text \<open>
  A strategy outside the source, standing for any other agent class: its \<open>order\<close>
  returns a given array, whatever the market, and leaves the agent alone.
\<close>

definition fixed_order :: "vec \<Rightarrow> order_method" where
  "fixed_order req a mv t = Inr (req, a)"

text \<open>
  The market of the end-to-end scenario: one lane, a KeepCashAgent and an AllInAgent,
  a schedule that pays 100 at every tick and a price model that leaves the price as it is.
\<close>

definition two_agent_market :: market where
  "two_agent_market =
     Market_init [new_agent KeepCashAgent, new_agent AllInAgent]
       (\<lambda>t. Inr 100) (\<lambda>mv t. mv) 1"






section \<open>Theorems\<close>

subsection \<open>The payout schedule\<close>

lemma SimpleCashInjection_init_value:
  "SimpleCashInjection_init =
     Inr \<lparr>cash_per_year = 10000, payouts_per_year = 500,
          payout_every_n_ticks = 20, payout = 20\<rparr>"
  by (simp add: SimpleCashInjection_init_def SimpleCashInjection_with_def TICKS_PER_YEAR_def)

text \<open>
  Claim C7. With the constants of the source (10000 ticks per year, 500 payouts per
  year) the constructor succeeds, and the schedule it builds returns 20 at every tick
  index that is a multiple of 20, tick 0 included, and 0 at every other tick index.
\<close>

theorem payout_periodicity:
  "\<exists>s. SimpleCashInjection_init = Inr s \<and>
       (\<forall>t. SimpleCashInjection_call s t = Inr (if t mod 20 = 0 then 20 else 0))"
  by (simp add: SimpleCashInjection_init_value SimpleCashInjection_call_def)

text \<open>
  Claim C8. The constructor, for any annual total \<open>c\<close> and any number of payouts \<open>p\<close>,
  raises exactly when \<open>p\<close> does not divide the 10000 ticks of a year (for \<open>p = 0\<close> the
  remainder itself raises). When \<open>p\<close> divides, the schedule is built, its payout is
  \<open>c / p\<close>, its period is \<open>10000 div p\<close>, and no call of it raises.
\<close>

theorem schedule_construction:
  "((\<exists>e. SimpleCashInjection_with c p = Inl e) \<longleftrightarrow> \<not> p dvd TICKS_PER_YEAR) \<and>
   (p dvd TICKS_PER_YEAR \<longrightarrow>
      (\<exists>s. SimpleCashInjection_with c p = Inr s \<and> payout s = c / of_int p \<and>
           payout_every_n_ticks s = TICKS_PER_YEAR div p \<and>
           (\<forall>t. \<exists>x. SimpleCashInjection_call s t = Inr x)))"
proof -
  have nz: "p dvd TICKS_PER_YEAR \<Longrightarrow> p \<noteq> 0 \<and> TICKS_PER_YEAR div p \<noteq> 0"
    by (auto simp add: TICKS_PER_YEAR_def dvd_div_eq_0_iff)
  show ?thesis
    using nz
    by (auto simp add: SimpleCashInjection_with_def SimpleCashInjection_call_def
        mod_eq_0_iff_dvd)
qed

theorem schedule_construction_witness:
  "(250::int) dvd TICKS_PER_YEAR \<and>
   (\<exists>s. SimpleCashInjection_with 5000 250 = Inr s \<and> payout s = 20 \<and>
        payout_every_n_ticks s = 40 \<and> (\<forall>t. \<exists>x. SimpleCashInjection_call s t = Inr x)) \<and>
   \<not> (3::int) dvd TICKS_PER_YEAR \<and>
   (\<exists>e. SimpleCashInjection_with 5000 3 = Inl e)"
  using schedule_construction [of 5000 250] schedule_construction [of 5000 3]
  by (simp add: TICKS_PER_YEAR_def)

subsection \<open>One trade\<close>

lemma trade_Inr:
  assumes "ord a mv t = Inr (req, a1)"
  shows "trade ord mv t a =
     Inr (a1\<lparr>cash := map2 (-) (cash a1) (map2 min (map2 (*) mv req) (cash a1)),
             depot := map2 (+) (depot a1) (map2 (/) (map2 min (map2 (*) mv req) (cash a1)) mv)\<rparr>)"
  using assms by (simp add: trade_def Let_def)






text \<open>
  Claim C10. Whatever the sign of the order, a lane whose cash is not negative before
  the trade has cash that is not negative after it (no hypothesis on \<open>market_value\<close> is
  needed). The depot has no such guard: an agent with no cash and no holdings whose
  \<open>order\<close> returns \<open>-1\<close> at price 1 ends with cash 1 and depot \<open>-1\<close>.
\<close>

theorem cash_never_negative:
  "(\<forall>ord a mv t req a1 n.
      ord a mv t = Inr (req, a1) \<and> cash a1 = cash a \<and>
      length mv = n \<and> length req = n \<and> length (cash a) = n \<longrightarrow>
      (\<exists>a2. trade ord mv t a = Inr a2 \<and> length (cash a2) = n \<and>
         (\<forall>i<n. 0 \<le> cash a ! i \<longrightarrow> 0 \<le> cash a2 ! i))) \<and>
   (\<exists>a2. trade (fixed_order [-1]) [1] 0
            \<lparr>kind = KeepCashAgent, cash = [0], depot = [0], limit = None\<rparr> = Inr a2 \<and>
      cash a2 = [1] \<and> depot a2 = [-1])"
proof (intro conjI allI impI)
  fix ord :: order_method and a mv t req a1 n
  assume "ord a mv t = Inr (req, a1) \<and> cash a1 = cash a \<and>
      length mv = n \<and> length req = n \<and> length (cash a) = n"
  then show "\<exists>a2. trade ord mv t a = Inr a2 \<and> length (cash a2) = n \<and>
         (\<forall>i<n. 0 \<le> cash a ! i \<longrightarrow> 0 \<le> cash a2 ! i)"
    by (simp add: trade_Inr)
next
  show "\<exists>a2. trade (fixed_order [-1]) [1] 0
            \<lparr>kind = KeepCashAgent, cash = [0], depot = [0], limit = None\<rparr> = Inr a2 \<and>
      cash a2 = [1] \<and> depot a2 = [-1]"
    by (simp add: trade_def fixed_order_def)
qed

theorem cash_never_negative_witness:
  "fixed_order [-3, 9] \<lparr>kind = KeepCashAgent, cash = [5, 7], depot = [0, 0], limit = None\<rparr> [2, 2] 0
     = Inr ([-3, 9], \<lparr>kind = KeepCashAgent, cash = [5, 7], depot = [0, 0], limit = None\<rparr>) \<and>
   (\<exists>a2. trade (fixed_order [-3, 9]) [2, 2] 0
            \<lparr>kind = KeepCashAgent, cash = [5, 7], depot = [0, 0], limit = None\<rparr> = Inr a2 \<and>
      0 \<le> cash a2 ! 0 \<and> 0 \<le> cash a2 ! 1 \<and> cash a2 = [11, 0])"
  using cash_never_negative [THEN conjunct1, rule_format, of "fixed_order [-3, 9]"
      "\<lparr>kind = KeepCashAgent, cash = [5, 7], depot = [0, 0], limit = None\<rparr>" "[2, 2]" 0 "[-3, 9]"
      "\<lparr>kind = KeepCashAgent, cash = [5, 7], depot = [0, 0], limit = None\<rparr>" 2]
  by (simp add: trade_def fixed_order_def)

lemma AllInAgent_order_req:
  "kind a = AllInAgent \<Longrightarrow> order a mv t = Inr (map2 (/) (cash a) mv, a)"
  by (simp add: order_def AllInAgent_order_def)

lemma AllInAgent_trade:
  assumes "kind a = AllInAgent" and "length mv = n" and "length (cash a) = n"
    and "length (depot a) = n"
  shows "\<exists>a2. trade order mv t a = Inr a2 \<and> kind a2 = AllInAgent \<and> limit a2 = limit a \<and>
      length (cash a2) = n \<and> length (depot a2) = n \<and>
      (\<forall>i<n. mv ! i \<noteq> 0 \<longrightarrow>
         cash a2 ! i = 0 \<and> depot a2 ! i = depot a ! i + cash a ! i / mv ! i)"
  using assms
  by (simp add: trade_Inr [of order a mv t "map2 (/) (cash a) mv" a, OF AllInAgent_order_req])

text \<open>
  The AllInAgent in exact arithmetic. For positive prices the trade leaves cash 0 in
  every lane and adds the cash it held, divided by the price, to the depot; the next
  trade then spends that tick's injection and no more. This is a statement about exact
  lane values only: in float32 the product \<open>market_value * (cash / market_value)\<close> can
  round to a value below the cash (cash 20 at price 1.0225867 gives 19.999998), and the
  trade then leaves the difference as cash.
\<close>

theorem AllInAgent_spends_all:
  assumes "kind a = AllInAgent"
    and "length mv = n" and "length (cash a) = n" and "length (depot a) = n"
    and "\<forall>i<n. 0 < mv ! i"
    and "length mv' = n" and "\<forall>i<n. 0 < mv' ! i"
  shows "\<exists>a2. trade order mv t a = Inr a2 \<and>
      (\<forall>i<n. cash a2 ! i = 0 \<and> depot a2 ! i = depot a ! i + cash a ! i / mv ! i) \<and>
      (\<exists>a3. trade order mv' t' (a2\<lparr>cash := map (\<lambda>c. c + injection) (cash a2)\<rparr>) = Inr a3 \<and>
         (\<forall>i<n. cash a3 ! i = 0 \<and> depot a3 ! i = depot a2 ! i + injection / mv' ! i))"
proof -
  from AllInAgent_trade [OF assms(1-4), of t] obtain a2 where
    a2: "trade order mv t a = Inr a2" "kind a2 = AllInAgent"
      "length (cash a2) = n" "length (depot a2) = n"
      "\<forall>i<n. mv ! i \<noteq> 0 \<longrightarrow> cash a2 ! i = 0 \<and> depot a2 ! i = depot a ! i + cash a ! i / mv ! i"
    by blast
  let ?b = "a2\<lparr>cash := map (\<lambda>c. c + injection) (cash a2)\<rparr>"
  have b: "kind ?b = AllInAgent" "length (cash ?b) = n" "length (depot ?b) = n"
    using a2 by simp_all
  from AllInAgent_trade [OF b(1) assms(6) b(2,3), of t'] obtain a3 where
    a3: "trade order mv' t' ?b = Inr a3"
      "\<forall>i<n. mv' ! i \<noteq> 0 \<longrightarrow>
         cash a3 ! i = 0 \<and> depot a3 ! i = depot ?b ! i + cash ?b ! i / mv' ! i"
    by blast
  have first: "\<forall>i<n. cash a2 ! i = 0 \<and> depot a2 ! i = depot a ! i + cash a ! i / mv ! i"
    using a2(5) assms(5) by fastforce
  have "\<forall>i<n. cash a3 ! i = 0 \<and> depot a3 ! i = depot a2 ! i + injection / mv' ! i"
  proof (intro allI impI)
    fix i assume i: "i < n"
    then have "mv' ! i \<noteq> 0" using assms(7) by fastforce
    moreover have "cash ?b ! i = injection" using i a2(3) first by simp
    ultimately show "cash a3 ! i = 0 \<and> depot a3 ! i = depot a2 ! i + injection / mv' ! i"
      using a3(2) i by simp
  qed
  with a2(1) a3(1) first show ?thesis by blast
qed

theorem AllInAgent_spends_all_witness:
  "kind \<lparr>kind = AllInAgent, cash = [10, 6], depot = [1, 0], limit = None\<rparr> = AllInAgent \<and>
   (0::real) < 2 \<and> (0::real) < 4 \<and> (0::real) < 5 \<and> (0::real) < 3 \<and>
   (\<exists>a2. trade order [2, 4] 0
            \<lparr>kind = AllInAgent, cash = [10, 6], depot = [1, 0], limit = None\<rparr> = Inr a2 \<and>
      cash a2 = [0, 0] \<and> depot a2 = [6, 3 / 2] \<and>
      (\<exists>a3. trade order [5, 3] 1 (a2\<lparr>cash := map (\<lambda>c. c + 30) (cash a2)\<rparr>) = Inr a3 \<and>
         cash a3 = [0, 0] \<and> depot a3 = [12, 23 / 2]))"
  using AllInAgent_spends_all [of
      "\<lparr>kind = AllInAgent, cash = [10, 6], depot = [1, 0], limit = None\<rparr>" "[2, 4]" 2 "[5, 3]" 0 1 30]
  by (simp add: trade_def order_def AllInAgent_order_def nth_Cons split: nat.splits)

subsection \<open>The limit of a LimitOrderAgent\<close>







subsection \<open>The tick\<close>

lemma tick_agents_phased:
  "tick_agents ord injection mv t ags = trade_all ord mv t (inject_all injection ags)"
  by (induction ags) (simp_all add: inject_all_def split: sum.splits)

text \<open>
  Claim C3. The tick of the source, which injects and trades agent by agent, gives the
  result of the four phases of the specification (injection to all agents, trades in
  the order of the list, price model, clock), the same error when one is raised, for
  agents that are separate objects trading by any \<open>order\<close> method; and a tick that
  returns has increased \<open>tick_count\<close> by exactly 1.
\<close>

theorem tick_is_phased:
  "tick ord m = tick_phased ord m \<and>
   (\<forall>m'. tick ord m = Inr m' \<longrightarrow> tick_count m' = tick_count m + 1)"
  by (auto simp add: tick_def tick_phased_def tick_agents_phased Let_def split: sum.splits)

lemma tick_two_agent_market:
  "0 \<le> c \<Longrightarrow>
   tick order
     \<lparr>agents = [\<lparr>kind = KeepCashAgent, cash = [c], depot = [0], limit = None\<rparr>,
                \<lparr>kind = AllInAgent, cash = [0], depot = [d], limit = None\<rparr>],
      cash_injection = (\<lambda>t. Inr 100), market_sim = (\<lambda>mv t. mv),
      tick_count = k, market_value = [1]\<rparr> =
   Inr \<lparr>agents = [\<lparr>kind = KeepCashAgent, cash = [c + 100], depot = [0], limit = None\<rparr>,
                   \<lparr>kind = AllInAgent, cash = [0], depot = [d + 100], limit = None\<rparr>],
        cash_injection = (\<lambda>t. Inr 100), market_sim = (\<lambda>mv t. mv),
        tick_count = k + 1, market_value = [1]\<rparr>"
  by (simp add: tick_def trade_def order_def KeepCashAgent_order_def AllInAgent_order_def)

theorem tick_is_phased_witness:
  "tick order two_agent_market = tick_phased order two_agent_market \<and>
   (\<exists>m'. tick order two_agent_market = Inr m' \<and> tick_count m' = 1 \<and>
      map cash (agents m') = [[100], [0]] \<and> map depot (agents m') = [[0], [100]])"
  using tick_is_phased [of order two_agent_market]
  by (simp add: two_agent_market_def Market_init_def new_agent_def tick_two_agent_market
      tick_phased_def inject_all_def trade_def order_def KeepCashAgent_order_def
      AllInAgent_order_def)

text \<open>
  Claim C5. The market of one lane with a KeepCashAgent and an AllInAgent, 100 paid at
  every tick and the price left at 1, is after five ticks in the state where the
  KeepCashAgent has cash 500 and depot 0 and the AllInAgent has cash 0 and depot 500.
\<close>

theorem end_to_end:
  "\<exists>m. run order 5 two_agent_market = Inr m \<and>
     map kind (agents m) = [KeepCashAgent, AllInAgent] \<and>
     map cash (agents m) = [[500], [0]] \<and>
     map depot (agents m) = [[0], [500]] \<and>
     tick_count m = 5 \<and> market_value m = [1]"
  by (simp add: two_agent_market_def Market_init_def new_agent_def eval_nat_numeral
      tick_two_agent_market)

subsection \<open>A run of the engine\<close>











end
